theory Spec2Isabelle
  imports Main "HOL-Library.Word"
begin

section \<open>Library functions called by matchers.cc\<close>

text \<open>
  \<^verbatim>\<open>matchers.cc\<close> calls Abseil's string helpers and the RE2 regular-expression engine.
  Neither library is part of the repository's sources. The Abseil helpers are small and
  are written out below, following the behaviour the specification relies on (ASCII-only
  folding, whole-string integer parsing). The RE2 engine is taken as a parameter.
\<close>

subsection \<open>absl/strings/ascii.h\<close>

text \<open>Modelled from the spec: \<^verbatim>\<open>absl::ascii_tolower\<close> is missing from the sources; it folds
  the 26 ASCII capital letters and leaves every other byte as it is.\<close>

definition ascii_tolower :: "char \<Rightarrow> char" where
  "ascii_tolower c =
     (if 65 \<le> (of_char c :: nat) \<and> (of_char c :: nat) \<le> 90
      then char_of ((of_char c :: nat) + 32) else c)"

text \<open>Modelled from the spec: \<^verbatim>\<open>absl::ascii_isspace\<close> is missing from the sources; the ASCII
  white space is the blank and the bytes 9 to 13.\<close>

definition ascii_isspace :: "char \<Rightarrow> bool" where
  "ascii_isspace c = ((of_char c :: nat) = 32 \<or> (9 \<le> (of_char c :: nat) \<and> (of_char c :: nat) \<le> 13))"

text \<open>Modelled from the spec: \<^verbatim>\<open>absl::AsciiStrToLower\<close> is missing from the sources; it folds
  every byte of its argument.\<close>

definition AsciiStrToLower :: "string \<Rightarrow> string" where
  "AsciiStrToLower s = map ascii_tolower s"

subsection \<open>absl/strings/match.h\<close>

text \<open>Modelled from the spec: \<^verbatim>\<open>absl::StartsWith\<close> is missing from the sources; the text
  starts with the prefix, compared byte for byte.\<close>

definition StartsWith :: "string \<Rightarrow> string \<Rightarrow> bool" where
  "StartsWith text prefix =
     (prefix = [] \<or>
      (length text \<ge> length prefix \<and> take (length prefix) text = prefix))"

text \<open>Modelled from the spec: \<^verbatim>\<open>absl::EndsWith\<close> is missing from the sources; the text ends
  with the suffix, compared byte for byte.\<close>

definition EndsWith :: "string \<Rightarrow> string \<Rightarrow> bool" where
  "EndsWith text suffix =
     (suffix = [] \<or>
      (length text \<ge> length suffix \<and>
       drop (length text - length suffix) text = suffix))"

text \<open>Modelled from the spec: \<^verbatim>\<open>absl::strings_internal::memcasecmp\<close> is missing from the
  sources; it compares the first \<open>len\<close> bytes of two buffers after ASCII folding and
  returns the first difference, or 0. Its callers check the sizes first, so the last
  equation is reached with \<open>len = 0\<close> only.\<close>

fun memcasecmp :: "string \<Rightarrow> string \<Rightarrow> nat \<Rightarrow> int" where
  "memcasecmp (a # s1) (b # s2) (Suc len) =
     (let diff = int (of_char (ascii_tolower a)) - int (of_char (ascii_tolower b))
      in if diff \<noteq> 0 then diff else memcasecmp s1 s2 len)"
| "memcasecmp _ _ _ = 0"

text \<open>Modelled from the spec: \<^verbatim>\<open>absl::EqualsIgnoreCase\<close> is missing from the sources; ASCII
  case-insensitive equality of two strings.\<close>

definition EqualsIgnoreCase :: "string \<Rightarrow> string \<Rightarrow> bool" where
  "EqualsIgnoreCase piece1 piece2 =
     (length piece1 = length piece2 \<and> memcasecmp piece1 piece2 (length piece1) = 0)"

text \<open>Modelled from the spec: \<^verbatim>\<open>absl::StartsWithIgnoreCase\<close> is missing from the sources;
  the prefix test with both sides folded.\<close>

definition StartsWithIgnoreCase :: "string \<Rightarrow> string \<Rightarrow> bool" where
  "StartsWithIgnoreCase text prefix =
     (length text \<ge> length prefix \<and>
      EqualsIgnoreCase (take (length prefix) text) prefix)"

text \<open>Modelled from the spec: \<^verbatim>\<open>absl::EndsWithIgnoreCase\<close> is missing from the sources; the
  suffix test with both sides folded.\<close>

definition EndsWithIgnoreCase :: "string \<Rightarrow> string \<Rightarrow> bool" where
  "EndsWithIgnoreCase text suffix =
     (length text \<ge> length suffix \<and>
      EqualsIgnoreCase (drop (length text - length suffix) text) suffix)"

text \<open>Modelled from the spec: \<^verbatim>\<open>absl::string_view::find\<close> is missing from the sources; the
  first position at which the needle occurs in the haystack, \<open>None\<close> for \<^verbatim>\<open>npos\<close>.\<close>

fun string_view_find :: "string \<Rightarrow> string \<Rightarrow> nat option" where
  "string_view_find [] needle = (if needle = [] then Some 0 else None)"
| "string_view_find (c # haystack) needle =
     (if StartsWith (c # haystack) needle then Some 0
      else map_option Suc (string_view_find haystack needle))"

text \<open>Modelled from the spec: \<^verbatim>\<open>absl::StrContains\<close> is missing from the sources; the needle
  is a substring of the haystack.\<close>

definition StrContains :: "string \<Rightarrow> string \<Rightarrow> bool" where
  "StrContains haystack needle = (string_view_find haystack needle \<noteq> None)"

subsection \<open>absl/strings/numbers.h\<close>

type_synonym int64 = "64 word"

definition int64_max :: int where
  "int64_max = 9223372036854775807"

definition int64_min :: int where
  "int64_min = - 9223372036854775808"

text \<open>Modelled from the spec: the digit table of \<^verbatim>\<open>absl/strings/numbers.cc\<close> is missing
  from the sources; a decimal digit has its value, a letter the values 10 to 35, every other
  byte 36, which no base admits.\<close>

definition kAsciiToInt :: "char \<Rightarrow> int" where
  "kAsciiToInt c =
     (let n = (of_char c :: nat) in
      if 48 \<le> n \<and> n \<le> 57 then int n - 48
      else if 97 \<le> n \<and> n \<le> 122 then int n - 87
      else if 65 \<le> n \<and> n \<le> 90 then int n - 55
      else 36)"

text \<open>Modelled from the spec: the tables \<^verbatim>\<open>kVmaxOverBase\<close> and \<^verbatim>\<open>kVminOverBase\<close> of
  \<^verbatim>\<open>absl/strings/numbers.cc\<close> are missing from the sources; for base 10 they hold the two
  limits divided by 10, and the division of C++ truncates towards zero.\<close>

definition vmax_over_base :: int where
  "vmax_over_base = int64_max div 10"

definition vmin_over_base :: int where
  "vmin_over_base = - ((- int64_min) div 10)"

text \<open>Modelled from the spec: the digit loops of \<^verbatim>\<open>absl::SimpleAtoi\<close> are missing from the
  sources. Every byte must be a decimal digit, and the value must stay inside the signed
  64-bit range: the loop checks before each multiplication and each addition, and fails
  (\<open>None\<close>) instead of wrapping around.\<close>

fun safe_parse_positive_int :: "string \<Rightarrow> int \<Rightarrow> int option" where
  "safe_parse_positive_int [] v = Some v"
| "safe_parse_positive_int (c # cs) v =
     (let digit = kAsciiToInt c in
      if digit \<ge> 10 then None
      else if v > vmax_over_base then None
      else if v * 10 > int64_max - digit then None
      else safe_parse_positive_int cs (v * 10 + digit))"

fun safe_parse_negative_int :: "string \<Rightarrow> int \<Rightarrow> int option" where
  "safe_parse_negative_int [] v = Some v"
| "safe_parse_negative_int (c # cs) v =
     (let digit = kAsciiToInt c in
      if digit \<ge> 10 then None
      else if v < vmin_over_base then None
      else if v * 10 < int64_min + digit then None
      else safe_parse_negative_int cs (v * 10 - digit))"

text \<open>Modelled from the spec: \<^verbatim>\<open>absl::SimpleAtoi\<close> is missing from the sources. It parses
  the entire string as a base-10 signed integer: ASCII white space around the number is
  dropped, one sign may come first, at least one digit must follow, and nothing else may
  remain. The result is \<open>None\<close> when the call returns false.\<close>

definition SimpleAtoi :: "string \<Rightarrow> int64 option" where
  "SimpleAtoi str =
     (let text = rev (dropWhile ascii_isspace (rev (dropWhile ascii_isspace str))) in
      case text of
        [] \<Rightarrow> None
      | c # rest \<Rightarrow>
          if c = CHR ''-'' then
            (if rest = [] then None
             else map_option word_of_int (safe_parse_negative_int rest 0))
          else if c = CHR ''+'' then
            (if rest = [] then None
             else map_option word_of_int (safe_parse_positive_int rest 0))
          else map_option word_of_int (safe_parse_positive_int text 0))"

subsection \<open>absl/strings/str_format.h\<close>

text \<open>Modelled from the spec: the \<^verbatim>\<open>%d\<close> conversion of \<^verbatim>\<open>absl::StrFormat\<close> is missing from
  the sources; it prints a signed integer in base 10, with a minus sign when negative. The
  \<^verbatim>\<open>%s\<close> conversion inserts its argument, which is written as \<open>@\<close> below.\<close>

fun decimal_digits :: "nat \<Rightarrow> string" where
  "decimal_digits n =
     (if n < 10 then [char_of (48 + n)]
      else decimal_digits (n div 10) @ [char_of (48 + n mod 10)])"

declare decimal_digits.simps [simp del]

definition format_d :: "int64 \<Rightarrow> string" where
  "format_d x =
     (if sint x < 0 then CHR ''-'' # decimal_digits (nat (- sint x))
      else decimal_digits (nat (sint x)))"

subsection \<open>re2/re2.h\<close>

text \<open>
  An \<^verbatim>\<open>RE2\<close> object is built from a pattern and its options, of which the code sets the
  case sensitivity only; \<^verbatim>\<open>pattern()\<close> gives the pattern back. The object is therefore
  the pair below. Whether the pattern compiled (\<^verbatim>\<open>ok()\<close>) and which strings it matches as
  a whole (\<^verbatim>\<open>RE2::FullMatch\<close>) is the engine's business: both are parameters.
\<close>

datatype RE2 = RE2 (pattern: string) (options_case_sensitive: bool)

record RE2_engine =
  RE2_ok :: "RE2 \<Rightarrow> bool"
  RE2_FullMatch :: "string \<Rightarrow> RE2 \<Rightarrow> bool"

text \<open>\<^verbatim>\<open>absl::InvalidArgumentError\<close> is the only status the code builds.\<close>

datatype Status = InvalidArgumentError string

section \<open>StringMatcher\<close>

text \<open>
  The enumeration \<^verbatim>\<open>StringMatcher::Type\<close>, in the order the comment in
  \<^verbatim>\<open>HeaderMatcher::Create\<close> gives. A scoped enumeration can hold a value that is no
  enumerator, which the \<^verbatim>\<open>default:\<close> branches catch: that is \<open>OTHER\<close>.
\<close>

datatype StringMatcher_Type = EXACT | PREFIX | SUFFIX | SAFE_REGEX | CONTAINS | OTHER int

text \<open>\<^verbatim>\<open>regex_matcher_\<close> is a \<^verbatim>\<open>std::unique_ptr\<close>: \<open>None\<close> is the null pointer.\<close>

record StringMatcher =
  sm_type :: StringMatcher_Type
  sm_string_matcher :: string
  sm_regex_matcher :: "RE2 option"
  sm_case_sensitive :: bool

text \<open>The constructor from a type and a literal; \<^verbatim>\<open>regex_matcher_\<close> stays null.\<close>

definition StringMatcher_literal :: "StringMatcher_Type \<Rightarrow> string \<Rightarrow> bool \<Rightarrow> StringMatcher" where
  "StringMatcher_literal type matcher case_sensitive =
     \<lparr>sm_type = type, sm_string_matcher = matcher, sm_regex_matcher = None,
      sm_case_sensitive = case_sensitive\<rparr>"

text \<open>The constructor from a compiled expression; \<^verbatim>\<open>string_matcher_\<close> stays empty.\<close>

definition StringMatcher_regex :: "RE2 \<Rightarrow> bool \<Rightarrow> StringMatcher" where
  "StringMatcher_regex regex_matcher case_sensitive =
     \<lparr>sm_type = SAFE_REGEX, sm_string_matcher = [], sm_regex_matcher = Some regex_matcher,
      sm_case_sensitive = case_sensitive\<rparr>"

definition StringMatcher_Create ::
  "RE2_engine \<Rightarrow> StringMatcher_Type \<Rightarrow> string \<Rightarrow> bool \<Rightarrow> Status + StringMatcher" where
  "StringMatcher_Create re2 type matcher case_sensitive =
     (if type = SAFE_REGEX then
        (let regex_matcher = RE2 matcher case_sensitive in
         if \<not> RE2_ok re2 regex_matcher then
           Inl (InvalidArgumentError ''Invalid regex string specified in matcher.'')
         else Inr (StringMatcher_regex regex_matcher case_sensitive))
      else Inr (StringMatcher_literal type matcher case_sensitive))"

text \<open>The copy constructor compiles the pattern again, with the same option.\<close>

definition StringMatcher_copy :: "StringMatcher \<Rightarrow> StringMatcher option" where
  "StringMatcher_copy other =
     (if sm_type other = SAFE_REGEX then
        (case sm_regex_matcher other of
           None \<Rightarrow> None
         | Some r \<Rightarrow>
             Some \<lparr>sm_type = sm_type other, sm_string_matcher = [],
                   sm_regex_matcher = Some (RE2 (pattern r) (sm_case_sensitive other)),
                   sm_case_sensitive = sm_case_sensitive other\<rparr>)
      else
        Some \<lparr>sm_type = sm_type other, sm_string_matcher = sm_string_matcher other,
              sm_regex_matcher = None, sm_case_sensitive = sm_case_sensitive other\<rparr>)"

text \<open>The move constructor takes over the one member that the type selects.\<close>

definition StringMatcher_move :: "StringMatcher \<Rightarrow> StringMatcher" where
  "StringMatcher_move other =
     (if sm_type other = SAFE_REGEX then
        \<lparr>sm_type = sm_type other, sm_string_matcher = [],
         sm_regex_matcher = sm_regex_matcher other,
         sm_case_sensitive = sm_case_sensitive other\<rparr>
      else
        \<lparr>sm_type = sm_type other, sm_string_matcher = sm_string_matcher other,
         sm_regex_matcher = None, sm_case_sensitive = sm_case_sensitive other\<rparr>)"

text \<open>
  \<^verbatim>\<open>operator==\<close>, \<^verbatim>\<open>Match\<close> and \<^verbatim>\<open>ToString\<close> dereference \<^verbatim>\<open>regex_matcher_\<close> when the type
  is \<^verbatim>\<open>SAFE_REGEX\<close>. Dereferencing the null pointer has no result: the three functions
  return \<open>None\<close> there, and \<open>Some\<close> of what the code returns everywhere else.
\<close>

definition StringMatcher_eq :: "StringMatcher \<Rightarrow> StringMatcher \<Rightarrow> bool option" where
  "StringMatcher_eq this other =
     (if sm_type this \<noteq> sm_type other \<or> sm_case_sensitive this \<noteq> sm_case_sensitive other
      then Some False
      else if sm_type this = SAFE_REGEX then
        (case (sm_regex_matcher this, sm_regex_matcher other) of
           (Some r, Some r') \<Rightarrow> Some (pattern r = pattern r')
         | _ \<Rightarrow> None)
      else Some (sm_string_matcher this = sm_string_matcher other))"

definition StringMatcher_Match :: "RE2_engine \<Rightarrow> StringMatcher \<Rightarrow> string \<Rightarrow> bool option" where
  "StringMatcher_Match re2 this v =
     (case sm_type this of
        EXACT \<Rightarrow>
          Some (if sm_case_sensitive this then v = sm_string_matcher this
                else EqualsIgnoreCase v (sm_string_matcher this))
      | PREFIX \<Rightarrow>
          Some (if sm_case_sensitive this then StartsWith v (sm_string_matcher this)
                else StartsWithIgnoreCase v (sm_string_matcher this))
      | SUFFIX \<Rightarrow>
          Some (if sm_case_sensitive this then EndsWith v (sm_string_matcher this)
                else EndsWithIgnoreCase v (sm_string_matcher this))
      | CONTAINS \<Rightarrow>
          Some (if sm_case_sensitive this then StrContains v (sm_string_matcher this)
                else StrContains (AsciiStrToLower v)
                       (AsciiStrToLower (sm_string_matcher this)))
      | SAFE_REGEX \<Rightarrow>
          (case sm_regex_matcher this of
             None \<Rightarrow> None
           | Some r \<Rightarrow> Some (RE2_FullMatch re2 v r))
      | OTHER _ \<Rightarrow> Some False)"

definition StringMatcher_ToString :: "StringMatcher \<Rightarrow> string option" where
  "StringMatcher_ToString this =
     (case sm_type this of
        EXACT \<Rightarrow>
          Some (''StringMatcher{exact='' @ sm_string_matcher this
                @ (if sm_case_sensitive this then [] else '', case_sensitive=false'') @ ''}'')
      | PREFIX \<Rightarrow>
          Some (''StringMatcher{prefix='' @ sm_string_matcher this
                @ (if sm_case_sensitive this then [] else '', case_sensitive=false'') @ ''}'')
      | SUFFIX \<Rightarrow>
          Some (''StringMatcher{suffix='' @ sm_string_matcher this
                @ (if sm_case_sensitive this then [] else '', case_sensitive=false'') @ ''}'')
      | CONTAINS \<Rightarrow>
          Some (''StringMatcher{contains='' @ sm_string_matcher this
                @ (if sm_case_sensitive this then [] else '', case_sensitive=false'') @ ''}'')
      | SAFE_REGEX \<Rightarrow>
          (case sm_regex_matcher this of
             None \<Rightarrow> None
           | Some r \<Rightarrow>
               Some (''StringMatcher{safe_regex='' @ pattern r
                     @ (if sm_case_sensitive this then [] else '', case_sensitive=false'') @ ''}''))
      | OTHER _ \<Rightarrow> Some [])"

section \<open>HeaderMatcher\<close>

text \<open>
  The enumeration \<^verbatim>\<open>HeaderMatcher::Type\<close>: the five types of \<^verbatim>\<open>StringMatcher::Type\<close>
  with the same values, then \<^verbatim>\<open>RANGE\<close> and \<^verbatim>\<open>PRESENT\<close>.
\<close>

datatype HeaderMatcher_Type =
  H_EXACT | H_PREFIX | H_SUFFIX | H_SAFE_REGEX | H_CONTAINS | RANGE | PRESENT

text \<open>\<^verbatim>\<open>static_cast<int>(type)\<close>.\<close>

fun HeaderMatcher_Type_int :: "HeaderMatcher_Type \<Rightarrow> int" where
  "HeaderMatcher_Type_int H_EXACT = 0"
| "HeaderMatcher_Type_int H_PREFIX = 1"
| "HeaderMatcher_Type_int H_SUFFIX = 2"
| "HeaderMatcher_Type_int H_SAFE_REGEX = 3"
| "HeaderMatcher_Type_int H_CONTAINS = 4"
| "HeaderMatcher_Type_int RANGE = 5"
| "HeaderMatcher_Type_int PRESENT = 6"

text \<open>\<^verbatim>\<open>static_cast<StringMatcher::Type>(type)\<close> keeps the underlying value.\<close>

definition StringMatcher_Type_of_int :: "int \<Rightarrow> StringMatcher_Type" where
  "StringMatcher_Type_of_int n =
     (if n = 0 then EXACT else if n = 1 then PREFIX else if n = 2 then SUFFIX
      else if n = 3 then SAFE_REGEX else if n = 4 then CONTAINS else OTHER n)"

record HeaderMatcher =
  hm_name :: string
  hm_type :: HeaderMatcher_Type
  hm_matcher :: StringMatcher
  hm_range_start :: int64
  hm_range_end :: int64
  hm_present_match :: bool
  hm_invert_match :: bool

text \<open>
  Each of the three constructors sets the name, the type, the invert flag and the one
  payload of its type. The members it leaves out hold what their declaration in
  \<^verbatim>\<open>matchers.h\<close> gives them, or nothing determined at all; the header is not among the
  sources, so the object before the constructor runs is the parameter \<open>init\<close>.
\<close>

definition HeaderMatcher_string ::
  "HeaderMatcher \<Rightarrow> string \<Rightarrow> HeaderMatcher_Type \<Rightarrow> StringMatcher \<Rightarrow> bool \<Rightarrow> HeaderMatcher" where
  "HeaderMatcher_string init name type string_matcher invert_match =
     init\<lparr>hm_name := name, hm_type := type,
          hm_matcher := StringMatcher_move string_matcher,
          hm_invert_match := invert_match\<rparr>"

definition HeaderMatcher_range ::
  "HeaderMatcher \<Rightarrow> string \<Rightarrow> int64 \<Rightarrow> int64 \<Rightarrow> bool \<Rightarrow> HeaderMatcher" where
  "HeaderMatcher_range init name range_start range_end invert_match =
     init\<lparr>hm_name := name, hm_type := RANGE, hm_range_start := range_start,
          hm_range_end := range_end, hm_invert_match := invert_match\<rparr>"

definition HeaderMatcher_present ::
  "HeaderMatcher \<Rightarrow> string \<Rightarrow> bool \<Rightarrow> bool \<Rightarrow> HeaderMatcher" where
  "HeaderMatcher_present init name present_match invert_match =
     init\<lparr>hm_name := name, hm_type := PRESENT, hm_present_match := present_match,
          hm_invert_match := invert_match\<rparr>"

definition HeaderMatcher_Create ::
  "RE2_engine \<Rightarrow> HeaderMatcher \<Rightarrow> string \<Rightarrow> HeaderMatcher_Type \<Rightarrow> string \<Rightarrow> int64 \<Rightarrow> int64
     \<Rightarrow> bool \<Rightarrow> bool \<Rightarrow> Status + HeaderMatcher" where
  "HeaderMatcher_Create re2 init name type matcher range_start range_end present_match
       invert_match =
     (if HeaderMatcher_Type_int type < 5 then
        (case StringMatcher_Create re2
                (StringMatcher_Type_of_int (HeaderMatcher_Type_int type)) matcher True of
           Inl status \<Rightarrow> Inl status
         | Inr string_matcher \<Rightarrow>
             Inr (HeaderMatcher_string init name type string_matcher invert_match))
      else if type = RANGE then
        (if sint range_start > sint range_end then
           Inl (InvalidArgumentError
             ''Invalid range specifier specified: end cannot be smaller than start.'')
         else Inr (HeaderMatcher_range init name range_start range_end invert_match))
      else Inr (HeaderMatcher_present init name present_match invert_match))"

definition HeaderMatcher_eq :: "HeaderMatcher \<Rightarrow> HeaderMatcher \<Rightarrow> bool option" where
  "HeaderMatcher_eq this other =
     (if hm_name this \<noteq> hm_name other then Some False
      else if hm_type this \<noteq> hm_type other then Some False
      else if hm_invert_match this \<noteq> hm_invert_match other then Some False
      else (case hm_type this of
              RANGE \<Rightarrow>
                Some (hm_range_start this = hm_range_start other \<and>
                      hm_range_end this = hm_range_end other)
            | PRESENT \<Rightarrow> Some (hm_present_match this = hm_present_match other)
            | _ \<Rightarrow> StringMatcher_eq (hm_matcher this) (hm_matcher other)))"

text \<open>
  \<open>base_match\<close> is the local variable \<^verbatim>\<open>match\<close> before the last line of \<^verbatim>\<open>Match\<close>;
  the value is \<open>None\<close> when the optional has no value.
\<close>

definition base_match :: "RE2_engine \<Rightarrow> HeaderMatcher \<Rightarrow> string option \<Rightarrow> bool option" where
  "base_match re2 this v =
     (if hm_type this = PRESENT then Some ((v \<noteq> None) = hm_present_match this)
      else (case v of
              None \<Rightarrow> Some False
            | Some s \<Rightarrow>
                if hm_type this = RANGE then
                  Some (case SimpleAtoi s of
                          None \<Rightarrow> False
                        | Some int_value \<Rightarrow>
                            sint int_value \<ge> sint (hm_range_start this) \<and>
                            sint int_value < sint (hm_range_end this))
                else StringMatcher_Match re2 (hm_matcher this) s))"

definition HeaderMatcher_Match :: "RE2_engine \<Rightarrow> HeaderMatcher \<Rightarrow> string option \<Rightarrow> bool option" where
  "HeaderMatcher_Match re2 this v =
     map_option (\<lambda>match. match \<noteq> hm_invert_match this) (base_match re2 this v)"

definition HeaderMatcher_ToString :: "HeaderMatcher \<Rightarrow> string option" where
  "HeaderMatcher_ToString this =
     (case hm_type this of
        RANGE \<Rightarrow>
          Some (''HeaderMatcher{'' @ hm_name this @ '' ''
                @ (if hm_invert_match this then ''not '' else [])
                @ ''range=['' @ format_d (hm_range_start this) @ '', ''
                @ format_d (hm_range_end this) @ '']}'')
      | PRESENT \<Rightarrow>
          Some (''HeaderMatcher{'' @ hm_name this @ '' ''
                @ (if hm_invert_match this then ''not '' else [])
                @ ''present='' @ (if hm_present_match this then ''true'' else ''false'')
                @ ''}'')
      | _ \<Rightarrow>
          map_option
            (\<lambda>s. ''HeaderMatcher{'' @ hm_name this @ '' ''
                  @ (if hm_invert_match this then ''not '' else []) @ s @ ''}'')
            (StringMatcher_ToString (hm_matcher this)))"

section \<open>A small engine and a blank object, for concrete runs\<close>

text \<open>
  To run the functions above on concrete inputs, the engine parameter needs a value. The
  engine below reads a pattern made of literal bytes, each with at most one of the postfix
  operators \<^verbatim>\<open>+\<close>, \<^verbatim>\<open>*\<close> and \<^verbatim>\<open>?\<close>, which RE2 reads the same way; it rejects every pattern
  that uses another operator. A match is a match of the whole text.
\<close>

datatype quantifier = Once | OneOrMore | ZeroOrMore | ZeroOrOne

definition is_operator :: "char \<Rightarrow> bool" where
  "is_operator c = (c \<in> set ''+*?.|()[]{}^$'' \<or> c = CHR 0x5C)"

fun parse_pattern :: "string \<Rightarrow> (char \<times> quantifier) list option" where
  "parse_pattern [] = Some []"
| "parse_pattern [c] = (if is_operator c then None else Some [(c, Once)])"
| "parse_pattern (c # q # cs) =
     (if is_operator c then None
      else if q = CHR ''+'' then map_option ((#) (c, OneOrMore)) (parse_pattern cs)
      else if q = CHR ''*'' then map_option ((#) (c, ZeroOrMore)) (parse_pattern cs)
      else if q = CHR ''?'' then map_option ((#) (c, ZeroOrOne)) (parse_pattern cs)
      else map_option ((#) (c, Once)) (parse_pattern (q # cs)))"

definition same_byte :: "bool \<Rightarrow> char \<Rightarrow> char \<Rightarrow> bool" where
  "same_byte case_sensitive a b =
     (if case_sensitive then a = b else ascii_tolower a = ascii_tolower b)"

fun match_whole :: "bool \<Rightarrow> (char \<times> quantifier) list \<Rightarrow> string \<Rightarrow> bool" where
  "match_whole cs [] text = (text = [])"
| "match_whole cs ((c, Once) # r) [] = False"
| "match_whole cs ((c, Once) # r) (x # text) = (same_byte cs c x \<and> match_whole cs r text)"
| "match_whole cs ((c, OneOrMore) # r) [] = False"
| "match_whole cs ((c, OneOrMore) # r) (x # text) =
     (same_byte cs c x \<and> match_whole cs ((c, ZeroOrMore) # r) text)"
| "match_whole cs ((c, ZeroOrMore) # r) [] = match_whole cs r []"
| "match_whole cs ((c, ZeroOrMore) # r) (x # text) =
     (match_whole cs r (x # text) \<or>
      (same_byte cs c x \<and> match_whole cs ((c, ZeroOrMore) # r) text))"
| "match_whole cs ((c, ZeroOrOne) # r) [] = match_whole cs r []"
| "match_whole cs ((c, ZeroOrOne) # r) (x # text) =
     (match_whole cs r (x # text) \<or> (same_byte cs c x \<and> match_whole cs r text))"

definition small_engine :: RE2_engine where
  "small_engine =
     \<lparr>RE2_ok = (\<lambda>r. parse_pattern (pattern r) \<noteq> None),
      RE2_FullMatch = (\<lambda>text r.
        case parse_pattern (pattern r) of
          None \<Rightarrow> False
        | Some items \<Rightarrow> match_whole (options_case_sensitive r) items text)\<rparr>"

text \<open>An object before any constructor has run, with every member at a fixed value.\<close>

definition blank_HeaderMatcher :: HeaderMatcher where
  "blank_HeaderMatcher =
     \<lparr>hm_name = [], hm_type = H_EXACT,
      hm_matcher = \<lparr>sm_type = EXACT, sm_string_matcher = [], sm_regex_matcher = None,
                    sm_case_sensitive = True\<rparr>,
      hm_range_start = 0, hm_range_end = 0, hm_present_match = False,
      hm_invert_match = False\<rparr>"

section \<open>Parsing a whole string as a decimal integer\<close>







section \<open>Basic facts about construction\<close>

lemma Type_int_less_5:
  "HeaderMatcher_Type_int type < 5 \<longleftrightarrow> type \<noteq> RANGE \<and> type \<noteq> PRESENT"
  by (cases type) simp_all

lemma StringMatcher_Create_case_sensitive:
  "StringMatcher_Create re2 t p cs = Inr m \<Longrightarrow> sm_case_sensitive m = cs"
  by (auto simp: StringMatcher_Create_def StringMatcher_regex_def StringMatcher_literal_def
      Let_def split: if_splits)

lemma StringMatcher_move_case_sensitive [simp]:
  "sm_case_sensitive (StringMatcher_move m) = sm_case_sensitive m"
  by (simp add: StringMatcher_move_def)

lemma StringMatcher_move_Create:
  "StringMatcher_Create re2 t p cs = Inr m \<Longrightarrow> StringMatcher_move m = m"
  by (auto simp: StringMatcher_Create_def StringMatcher_regex_def StringMatcher_literal_def
      StringMatcher_move_def Let_def split: if_splits)

lemma StringMatcher_copy_Create:
  "StringMatcher_Create re2 t p cs = Inr m \<Longrightarrow> StringMatcher_copy m = Some m"
  by (auto simp: StringMatcher_Create_def StringMatcher_regex_def StringMatcher_literal_def
      StringMatcher_copy_def Let_def split: if_splits)

lemma base_match_name [simp]:
  "base_match re2 (h\<lparr>hm_name := n\<rparr>) v = base_match re2 h v"
  by (simp add: base_match_def split: option.splits)

lemma base_match_string:
  "type \<noteq> RANGE \<Longrightarrow> type \<noteq> PRESENT \<Longrightarrow>
   base_match re2 (HeaderMatcher_string init name type sm ivt) v =
     (case v of None \<Rightarrow> Some False
      | Some s \<Rightarrow> StringMatcher_Match re2 (StringMatcher_move sm) s)"
  by (simp add: base_match_def HeaderMatcher_string_def split: option.splits)

lemma base_match_range:
  "base_match re2 (HeaderMatcher_range init name rs re ivt) v =
     (case v of None \<Rightarrow> Some False
      | Some s \<Rightarrow>
          Some (case SimpleAtoi s of None \<Rightarrow> False
                | Some n \<Rightarrow> sint rs \<le> sint n \<and> sint n < sint re))"
  by (simp add: base_match_def HeaderMatcher_range_def split: option.splits)

lemma base_match_present:
  "base_match re2 (HeaderMatcher_present init name pm ivt) v = Some ((v \<noteq> None) = pm)"
  by (simp add: base_match_def HeaderMatcher_present_def)

lemma invert_constructors [simp]:
  "hm_invert_match (HeaderMatcher_string init name type sm ivt) = ivt"
  "hm_invert_match (HeaderMatcher_range init name rs re ivt) = ivt"
  "hm_invert_match (HeaderMatcher_present init name pm ivt) = ivt"
  by (simp_all add: HeaderMatcher_string_def HeaderMatcher_range_def HeaderMatcher_present_def)

lemma HeaderMatcher_Create_cases:
  assumes "HeaderMatcher_Create re2 init name type matcher rs re pm ivt = Inr h"
  obtains (shared) sm where "type \<noteq> RANGE" "type \<noteq> PRESENT"
      "StringMatcher_Create re2 (StringMatcher_Type_of_int (HeaderMatcher_Type_int type))
         matcher True = Inr sm"
      "h = HeaderMatcher_string init name type sm ivt"
    | (range) "type = RANGE" "\<not> sint rs > sint re" "h = HeaderMatcher_range init name rs re ivt"
    | (present) "type = PRESENT" "h = HeaderMatcher_present init name pm ivt"
proof (cases "HeaderMatcher_Type_int type < 5")
  case True
  then have t: "type \<noteq> RANGE" "type \<noteq> PRESENT" by (simp_all add: Type_int_less_5)
  from assms True show ?thesis
    by (auto simp: HeaderMatcher_Create_def split: sum.splits intro: shared [OF t])
next
  case False
  then have "type = RANGE \<or> type = PRESENT" by (simp add: Type_int_less_5)
  then show ?thesis
  proof
    assume r: "type = RANGE"
    with assms show ?thesis
      by (auto simp: HeaderMatcher_Create_def split: if_splits intro: range)
  next
    assume p: "type = PRESENT"
    with assms show ?thesis
      by (auto simp: HeaderMatcher_Create_def intro: present)
  qed
qed

lemma base_match_absent:
  "hm_type h \<noteq> PRESENT \<Longrightarrow> base_match re2 h None = Some False"
  by (simp add: base_match_def)

section \<open>The string helpers\<close>

text \<open>
  The prefix, suffix and substring tests, as written above with sizes and offsets, are the
  tests that the text is the pattern followed by something, something followed by the
  pattern, and the pattern between two somethings.
\<close>

lemma StartsWith_iff: "StartsWith text' prefix = (\<exists>after. text' = prefix @ after)"
proof
  assume "StartsWith text' prefix"
  then have "take (length prefix) text' = prefix"
    by (auto simp: StartsWith_def)
  then have "text' = prefix @ drop (length prefix) text'"
    using append_take_drop_id [of "length prefix" text'] by simp
  then show "\<exists>after. text' = prefix @ after" by blast
next
  assume "\<exists>after. text' = prefix @ after"
  then obtain after where "text' = prefix @ after" by blast
  then show "StartsWith text' prefix" by (simp add: StartsWith_def)
qed

lemma EndsWith_iff: "EndsWith text' suffix = (\<exists>before. text' = before @ suffix)"
proof (cases "suffix = []")
  case True
  then show ?thesis by (simp add: EndsWith_def)
next
  case False
  show ?thesis
  proof
    assume "EndsWith text' suffix"
    with False have l: "length suffix \<le> length text'"
      and d: "drop (length text' - length suffix) text' = suffix"
      by (auto simp: EndsWith_def)
    have "text' = take (length text' - length suffix) text' @ suffix"
      using d append_take_drop_id [of "length text' - length suffix" text'] by simp
    then show "\<exists>before. text' = before @ suffix" by blast
  next
    assume "\<exists>before. text' = before @ suffix"
    then obtain before where "text' = before @ suffix" by blast
    then show "EndsWith text' suffix" by (simp add: EndsWith_def)
  qed
qed

lemma StrContains_iff:
  "StrContains haystack needle = (\<exists>before after. haystack = before @ needle @ after)"
proof (induction haystack)
  case Nil
  then show ?case by (simp add: StrContains_def)
next
  case (Cons c haystack)
  have sw: "StartsWith (c # haystack) needle = (\<exists>after. c # haystack = needle @ after)"
    by (rule StartsWith_iff)
  show ?case
  proof (cases "StartsWith (c # haystack) needle")
    case True
    with sw obtain after where "c # haystack = [] @ needle @ after" by auto
    then have "\<exists>before after. c # haystack = before @ needle @ after" by blast
    with True show ?thesis by (simp add: StrContains_def)
  next
    case False
    have "(\<exists>before after. c # haystack = before @ needle @ after)
        = (\<exists>before after. haystack = before @ needle @ after)"
    proof
      assume "\<exists>before after. c # haystack = before @ needle @ after"
      then obtain before after where e: "c # haystack = before @ needle @ after" by blast
      show "\<exists>before after. haystack = before @ needle @ after"
      proof (cases before)
        case Nil
        with e sw False show ?thesis by auto
      next
        case (Cons b bs)
        with e have "haystack = bs @ needle @ after" by simp
        then show ?thesis by blast
      qed
    next
      assume "\<exists>before after. haystack = before @ needle @ after"
      then obtain before after where "haystack = before @ needle @ after" by blast
      then have "c # haystack = (c # before) @ needle @ after" by simp
      then show "\<exists>before after. c # haystack = before @ needle @ after" by blast
    qed
    with False Cons.IH show ?thesis
      by (simp add: StrContains_def)
  qed
qed

section \<open>Absent values\<close>

text \<open>
  C1: for every HeaderMatcher whose type is not \<^verbatim>\<open>PRESENT\<close>, \<^verbatim>\<open>Match\<close> of an absent value
  has the base result false, and the result is the base result XOR \<^verbatim>\<open>invert_match_\<close>:
  true when the matcher inverts, false when it does not.
\<close>

theorem Match_absent_not_present:
  assumes "hm_type h \<noteq> PRESENT"
  shows "base_match re2 h None = Some False
    \<and> HeaderMatcher_Match re2 h None = Some (False \<noteq> hm_invert_match h)
    \<and> (hm_invert_match h \<longrightarrow> HeaderMatcher_Match re2 h None = Some True)
    \<and> (\<not> hm_invert_match h \<longrightarrow> HeaderMatcher_Match re2 h None = Some False)"
  using assms by (simp add: HeaderMatcher_Match_def base_match_absent)

theorem Match_absent_not_present_witness:
  "hm_type (HeaderMatcher_range blank_HeaderMatcher ''age'' 10 20 True) \<noteq> PRESENT
   \<and> HeaderMatcher_Match small_engine
        (HeaderMatcher_range blank_HeaderMatcher ''age'' 10 20 True) None = Some True
   \<and> hm_type (HeaderMatcher_string blank_HeaderMatcher ''x'' H_EXACT
         (StringMatcher_literal EXACT ''a'' True) False) \<noteq> PRESENT
   \<and> HeaderMatcher_Match small_engine
        (HeaderMatcher_string blank_HeaderMatcher ''x'' H_EXACT
           (StringMatcher_literal EXACT ''a'' True) False) None = Some False"
  using Match_absent_not_present [of "HeaderMatcher_range blank_HeaderMatcher ''age'' 10 20 True" small_engine]
    Match_absent_not_present [of "HeaderMatcher_string blank_HeaderMatcher ''x'' H_EXACT
           (StringMatcher_literal EXACT ''a'' True) False" small_engine]
  by (simp add: HeaderMatcher_range_def HeaderMatcher_string_def)

section \<open>Construction of a HeaderMatcher\<close>

text \<open>
  C3: for the five types shared with StringMatcher, \<^verbatim>\<open>HeaderMatcher::Create\<close> calls
  \<^verbatim>\<open>StringMatcher::Create\<close> with \<^verbatim>\<open>case_sensitive = true\<close> (it has no parameter for it),
  returns the status of a failed creation as it is, and otherwise stores a matcher that is
  case sensitive.
\<close>

theorem Create_shared_kinds_delegates:
  assumes "type \<in> {H_EXACT, H_PREFIX, H_SUFFIX, H_SAFE_REGEX, H_CONTAINS}"
  shows "HeaderMatcher_Create re2 init name type matcher range_start range_end present_match
           invert_match =
         (case StringMatcher_Create re2
                 (StringMatcher_Type_of_int (HeaderMatcher_Type_int type)) matcher True of
            Inl status \<Rightarrow> Inl status
          | Inr string_matcher \<Rightarrow>
              Inr (HeaderMatcher_string init name type string_matcher invert_match))
       \<and> (\<forall>status. StringMatcher_Create re2
                 (StringMatcher_Type_of_int (HeaderMatcher_Type_int type)) matcher True
               = Inl status \<longrightarrow>
             HeaderMatcher_Create re2 init name type matcher range_start range_end
               present_match invert_match = Inl status)
       \<and> (\<forall>h. HeaderMatcher_Create re2 init name type matcher range_start range_end
               present_match invert_match = Inr h \<longrightarrow>
             sm_case_sensitive (hm_matcher h) = True \<and>
             StringMatcher_Create re2
               (StringMatcher_Type_of_int (HeaderMatcher_Type_int type)) matcher True
               = Inr (hm_matcher h))"
proof -
  from assms have lt: "HeaderMatcher_Type_int type < 5" by auto
  show ?thesis
    using lt
    by (auto simp: HeaderMatcher_Create_def HeaderMatcher_string_def
        StringMatcher_move_Create
        dest: StringMatcher_Create_case_sensitive split: sum.splits)
qed

theorem Create_shared_kinds_delegates_witness:
  "H_SAFE_REGEX \<in> {H_EXACT, H_PREFIX, H_SUFFIX, H_SAFE_REGEX, H_CONTAINS}
   \<and> StringMatcher_Create small_engine SAFE_REGEX ''a(b'' True =
     Inl (InvalidArgumentError ''Invalid regex string specified in matcher.'')
   \<and> HeaderMatcher_Create small_engine blank_HeaderMatcher ''x'' H_SAFE_REGEX ''a(b'' 0 0 False
       False = Inl (InvalidArgumentError ''Invalid regex string specified in matcher.'')
   \<and> H_EXACT \<in> {H_EXACT, H_PREFIX, H_SUFFIX, H_SAFE_REGEX, H_CONTAINS}
   \<and> HeaderMatcher_Create small_engine blank_HeaderMatcher ''x'' H_EXACT ''a'' 0 0 False True
      = Inr (HeaderMatcher_string blank_HeaderMatcher ''x'' H_EXACT
               (StringMatcher_literal EXACT ''a'' True) True)
   \<and> sm_case_sensitive (hm_matcher (HeaderMatcher_string blank_HeaderMatcher ''x'' H_EXACT
               (StringMatcher_literal EXACT ''a'' True) True)) = True"
proof -
  have m1: "H_SAFE_REGEX \<in> {H_EXACT, H_PREFIX, H_SUFFIX, H_SAFE_REGEX, H_CONTAINS}"
    and m2: "H_EXACT \<in> {H_EXACT, H_PREFIX, H_SUFFIX, H_SAFE_REGEX, H_CONTAINS}"
    by simp_all
  have e1: "StringMatcher_Create small_engine SAFE_REGEX ''a(b'' True =
     Inl (InvalidArgumentError ''Invalid regex string specified in matcher.'')"
    by (simp add: StringMatcher_Create_def small_engine_def is_operator_def)
  have e2: "StringMatcher_Create small_engine EXACT ''a'' True =
     Inr (StringMatcher_literal EXACT ''a'' True)"
    by (simp add: StringMatcher_Create_def)
  have c1: "HeaderMatcher_Create small_engine blank_HeaderMatcher ''x'' H_SAFE_REGEX ''a(b'' 0 0
       False False = Inl (InvalidArgumentError ''Invalid regex string specified in matcher.'')"
    using Create_shared_kinds_delegates [OF m1, of small_engine blank_HeaderMatcher "''x''"
        "''a(b''" 0 0 False False, THEN conjunct1]
    by (simp add: StringMatcher_Type_of_int_def e1)
  have c2: "HeaderMatcher_Create small_engine blank_HeaderMatcher ''x'' H_EXACT ''a'' 0 0 False
      True = Inr (HeaderMatcher_string blank_HeaderMatcher ''x'' H_EXACT
               (StringMatcher_literal EXACT ''a'' True) True)"
    using Create_shared_kinds_delegates [OF m2, of small_engine blank_HeaderMatcher "''x''"
        "''a''" 0 0 False True, THEN conjunct1]
    by (simp add: StringMatcher_Type_of_int_def e2)
  have c3: "sm_case_sensitive (hm_matcher (HeaderMatcher_string blank_HeaderMatcher ''x'' H_EXACT
               (StringMatcher_literal EXACT ''a'' True) True)) = True"
    using Create_shared_kinds_delegates [OF m2, of small_engine blank_HeaderMatcher "''x''"
        "''a''" 0 0 False True, THEN conjunct2, THEN conjunct2] c2
    by blast
  from m1 e1 c1 m2 c2 c3 show ?thesis by blast
qed

text \<open>
  C4: \<^verbatim>\<open>HeaderMatcher::Create\<close> with type \<^verbatim>\<open>RANGE\<close> fails, with the status that says the
  end cannot be smaller than the start, exactly when \<^verbatim>\<open>range_start > range_end\<close>; equal
  bounds are accepted, and the matcher built from them has the base result false for every
  value, present or absent, so that \<^verbatim>\<open>Match\<close> returns \<^verbatim>\<open>invert_match_\<close>.
\<close>

theorem Create_range_fails_iff:
  "(sint range_start > sint range_end \<longrightarrow>
      HeaderMatcher_Create re2 init name RANGE matcher range_start range_end present_match
        invert_match =
      Inl (InvalidArgumentError
        ''Invalid range specifier specified: end cannot be smaller than start.''))
   \<and> (\<not> sint range_start > sint range_end \<longrightarrow>
      HeaderMatcher_Create re2 init name RANGE matcher range_start range_end present_match
        invert_match =
      Inr (HeaderMatcher_range init name range_start range_end invert_match))
   \<and> (range_start = range_end \<longrightarrow>
        (\<forall>v. base_match re2
               (HeaderMatcher_range init name range_start range_end invert_match) v
              = Some False) \<and>
        (\<forall>v. HeaderMatcher_Match re2
               (HeaderMatcher_range init name range_start range_end invert_match) v
              = Some invert_match))"
  by (auto simp: HeaderMatcher_Create_def HeaderMatcher_Match_def base_match_def
      HeaderMatcher_range_def split: option.splits)

theorem Create_range_fails_iff_witness:
  "sint (10 :: int64) > sint (5 :: int64)
   \<and> HeaderMatcher_Create small_engine blank_HeaderMatcher ''x'' RANGE [] 10 5 False False =
      Inl (InvalidArgumentError
        ''Invalid range specifier specified: end cannot be smaller than start.'')
   \<and> \<not> sint (7 :: int64) > sint (7 :: int64)
   \<and> HeaderMatcher_Create small_engine blank_HeaderMatcher ''x'' RANGE [] 7 7 False True =
      Inr (HeaderMatcher_range blank_HeaderMatcher ''x'' 7 7 True)
   \<and> HeaderMatcher_Match small_engine (HeaderMatcher_range blank_HeaderMatcher ''x'' 7 7 True)
        (Some ''7'') = Some True
   \<and> HeaderMatcher_Match small_engine (HeaderMatcher_range blank_HeaderMatcher ''x'' 7 7 True)
        None = Some True"
  using Create_range_fails_iff [where range_start = 10 and range_end = 5
      and ?re2.0 = small_engine and init = blank_HeaderMatcher and name = "''x''"
      and matcher = "[]" and present_match = False and invert_match = False]
    Create_range_fails_iff [where range_start = 7 and range_end = 7
      and ?re2.0 = small_engine and init = blank_HeaderMatcher and name = "''x''"
      and matcher = "[]" and present_match = False and invert_match = True]
  by simp

section \<open>The name does not take part in matching\<close>

text \<open>
  C9: two HeaderMatchers created from the same type, pattern, bounds, present flag and
  invert flag, but with different names (and whatever the members a constructor leaves
  out hold), give the same result of \<^verbatim>\<open>Match\<close> on every optional value; changing the
  stored name of a matcher does not change the result either.
\<close>

theorem Match_independent_of_name:
  assumes "HeaderMatcher_Create re2 init1 name1 type matcher range_start range_end
             present_match invert_match = Inr h1"
  shows "\<exists>h2. HeaderMatcher_Create re2 init2 name2 type matcher range_start range_end
                 present_match invert_match = Inr h2
              \<and> HeaderMatcher_Match re2 h2 v = HeaderMatcher_Match re2 h1 v
              \<and> HeaderMatcher_Match re2 (h1\<lparr>hm_name := name2\<rparr>) v
                  = HeaderMatcher_Match re2 h1 v"
  using assms
proof (cases rule: HeaderMatcher_Create_cases)
  case (shared sm)
  then show ?thesis
    by (simp add: HeaderMatcher_Create_def Type_int_less_5 HeaderMatcher_Match_def
        base_match_string)
next
  case range
  then show ?thesis
    by (simp add: HeaderMatcher_Create_def HeaderMatcher_Match_def base_match_range)
next
  case present
  then show ?thesis
    by (simp add: HeaderMatcher_Create_def HeaderMatcher_Match_def base_match_present)
qed

theorem Match_independent_of_name_witness:
  "HeaderMatcher_Create small_engine blank_HeaderMatcher ''x-a'' H_PREFIX ''ab'' 0 0 False False
     = Inr (HeaderMatcher_string blank_HeaderMatcher ''x-a'' H_PREFIX
              (StringMatcher_literal PREFIX ''ab'' True) False)
   \<and> HeaderMatcher_Create small_engine blank_HeaderMatcher ''x-b'' H_PREFIX ''ab'' 0 0 False False
     = Inr (HeaderMatcher_string blank_HeaderMatcher ''x-b'' H_PREFIX
              (StringMatcher_literal PREFIX ''ab'' True) False)
   \<and> HeaderMatcher_Match small_engine
        (HeaderMatcher_string blank_HeaderMatcher ''x-b'' H_PREFIX
              (StringMatcher_literal PREFIX ''ab'' True) False) (Some ''abc'')
     = HeaderMatcher_Match small_engine
        (HeaderMatcher_string blank_HeaderMatcher ''x-a'' H_PREFIX
              (StringMatcher_literal PREFIX ''ab'' True) False) (Some ''abc'')"
proof -
  have c: "HeaderMatcher_Create small_engine blank_HeaderMatcher ''x-a'' H_PREFIX ''ab'' 0 0
      False False
     = Inr (HeaderMatcher_string blank_HeaderMatcher ''x-a'' H_PREFIX
              (StringMatcher_literal PREFIX ''ab'' True) False)"
    by (simp add: HeaderMatcher_Create_def StringMatcher_Type_of_int_def
        StringMatcher_Create_def)
  show ?thesis
    using c Match_independent_of_name [OF c, of blank_HeaderMatcher "''x-b''" "Some ''abc''"]
    by (auto simp: HeaderMatcher_Create_def StringMatcher_Type_of_int_def
        StringMatcher_Create_def)
qed

section \<open>The empty literal\<close>

text \<open>
  C10: a StringMatcher of type \<^verbatim>\<open>PREFIX\<close>, \<^verbatim>\<open>SUFFIX\<close> or \<^verbatim>\<open>CONTAINS\<close> created with the
  empty pattern matches every value, the empty one included, with either case flag.
\<close>

theorem Match_empty_pattern:
  assumes "t \<in> {PREFIX, SUFFIX, CONTAINS}"
  shows "\<exists>m. StringMatcher_Create re2 t [] case_sensitive = Inr m
           \<and> StringMatcher_Match re2 m v = Some True"
proof -
  have f: "string_view_find h [] = Some 0" for h
    by (cases h) (simp_all add: StartsWith_def)
  have e: "EqualsIgnoreCase [] []"
    by (simp add: EqualsIgnoreCase_def)
  from assms show ?thesis
    by (auto simp: StringMatcher_Create_def StringMatcher_literal_def StringMatcher_Match_def
      StartsWith_def EndsWith_def StartsWithIgnoreCase_def EndsWithIgnoreCase_def
      StrContains_def AsciiStrToLower_def f e)
qed

theorem Match_empty_pattern_witness:
  "CONTAINS \<in> {PREFIX, SUFFIX, CONTAINS}
   \<and> (\<exists>m. StringMatcher_Create small_engine CONTAINS [] False = Inr m
           \<and> StringMatcher_Match small_engine m ''abc'' = Some True)
   \<and> SUFFIX \<in> {PREFIX, SUFFIX, CONTAINS}
   \<and> (\<exists>m. StringMatcher_Create small_engine SUFFIX [] True = Inr m
           \<and> StringMatcher_Match small_engine m [] = Some True)"
  using Match_empty_pattern [of CONTAINS small_engine False "''abc''"]
    Match_empty_pattern [of SUFFIX small_engine True "[]"]
  by simp

section \<open>Literal comparison\<close>

lemma ascii_tolower_changes:
  "(ascii_tolower c \<noteq> c) = (65 \<le> (of_char c :: nat) \<and> (of_char c :: nat) \<le> 90)"
proof (cases "65 \<le> (of_char c :: nat) \<and> (of_char c :: nat) \<le> 90")
  case True
  then have "(of_char (ascii_tolower c) :: nat) = of_char c + 32"
    by (simp add: ascii_tolower_def)
  then have "(of_char (ascii_tolower c) :: nat) \<noteq> of_char c" by simp
  then have "ascii_tolower c \<noteq> c" by auto
  with True show ?thesis by simp
next
  case False
  then show ?thesis by (auto simp: ascii_tolower_def)
qed

lemma memcasecmp_zero_iff:
  "length a = length b \<Longrightarrow>
   (memcasecmp a b (length a) = 0) = (map ascii_tolower a = map ascii_tolower b)"
proof (induction a arbitrary: b)
  case Nil
  then show ?case by simp
next
  case (Cons x xs)
  then obtain y ys where b: "b = y # ys" and l: "length xs = length ys"
    by (cases b) auto
  from Cons.IH [OF l] show ?case
    by (simp add: b Let_def)
qed

lemma EqualsIgnoreCase_iff:
  "EqualsIgnoreCase a b = (AsciiStrToLower a = AsciiStrToLower b)"
proof (cases "length a = length b")
  case True
  then show ?thesis
    unfolding EqualsIgnoreCase_def AsciiStrToLower_def
    using memcasecmp_zero_iff [OF True] by blast
next
  case False
  then have "map ascii_tolower a \<noteq> map ascii_tolower b"
    by (metis length_map)
  with False show ?thesis
    by (simp add: EqualsIgnoreCase_def AsciiStrToLower_def)
qed

text \<open>
  C6: a StringMatcher of type \<^verbatim>\<open>EXACT\<close> that is case sensitive matches a value exactly
  when the value equals the pattern byte for byte; one that is not case sensitive matches
  exactly when the two are equal after ASCII folding, which changes the 26 capital letters
  and no other byte. So \<^verbatim>\<open>FOO\<close> matches \<^verbatim>\<open>foo\<close>, and the two UTF-8 bytes of a capital E
  with acute accent do not match those of the small letter.
\<close>

theorem Exact_match:
  "(\<exists>m. StringMatcher_Create re2 EXACT p True = Inr m
        \<and> StringMatcher_Match re2 m v = Some (v = p))
   \<and> (\<exists>m. StringMatcher_Create re2 EXACT p False = Inr m
        \<and> StringMatcher_Match re2 m v = Some (AsciiStrToLower v = AsciiStrToLower p))
   \<and> (ascii_tolower c \<noteq> c) = (65 \<le> (of_char c :: nat) \<and> (of_char c :: nat) \<le> 90)
   \<and> (\<exists>m. StringMatcher_Create re2 EXACT ''FOO'' False = Inr m
        \<and> StringMatcher_Match re2 m ''foo'' = Some True)
   \<and> (\<exists>m. StringMatcher_Create re2 EXACT [CHR 0xC3, CHR 0x89] False = Inr m
        \<and> StringMatcher_Match re2 m [CHR 0xC3, CHR 0xA9] = Some False)"
proof -
  have a: "StringMatcher_Match re2 (StringMatcher_literal EXACT q True) w = Some (w = q)" for q w
    by (simp add: StringMatcher_Match_def StringMatcher_literal_def)
  have b: "StringMatcher_Match re2 (StringMatcher_literal EXACT q False) w
      = Some (AsciiStrToLower w = AsciiStrToLower q)" for q w
    by (simp add: StringMatcher_Match_def StringMatcher_literal_def EqualsIgnoreCase_iff)
  have c: "StringMatcher_Create re2 EXACT q cs = Inr (StringMatcher_literal EXACT q cs)" for q cs
    by (simp add: StringMatcher_Create_def)
  have d: "AsciiStrToLower ''foo'' = AsciiStrToLower ''FOO''"
    by code_simp
  have e: "AsciiStrToLower [CHR 0xC3, CHR 0xA9] \<noteq> AsciiStrToLower [CHR 0xC3, CHR 0x89]"
    by code_simp
  show ?thesis
    by (simp add: a b c d e ascii_tolower_changes)
qed

theorem Exact_match_witness:
  "(\<exists>m. StringMatcher_Create small_engine EXACT ''foo'' False = Inr m
        \<and> StringMatcher_Match small_engine m ''FOO'' = Some True)
   \<and> (\<exists>m. StringMatcher_Create small_engine EXACT ''foo'' True = Inr m
        \<and> StringMatcher_Match small_engine m ''FOO'' = Some False)"
proof -
  have d: "AsciiStrToLower ''FOO'' = AsciiStrToLower ''foo''"
    by code_simp
  show ?thesis
    using Exact_match [of small_engine "''foo''" "''FOO''" "CHR ''a''"]
    by (simp add: d)
qed

section \<open>Regular expressions\<close>



section \<open>Equality and the canonical string\<close>

lemma StringMatcher_eq_ToString:
  assumes "StringMatcher_eq a b = Some True"
  shows "\<exists>s. StringMatcher_ToString a = Some s \<and> StringMatcher_ToString b = Some s"
proof -
  from assms have t: "sm_type a = sm_type b" and c: "sm_case_sensitive a = sm_case_sensitive b"
    by (auto simp: StringMatcher_eq_def split: if_splits)
  show ?thesis
  proof (cases "sm_type a = SAFE_REGEX")
    case True
    with assms t c obtain r r' where "sm_regex_matcher a = Some r" "sm_regex_matcher b = Some r'"
      "pattern r = pattern r'"
      by (auto simp: StringMatcher_eq_def split: option.splits)
    with True t c show ?thesis
      by (simp add: StringMatcher_ToString_def)
  next
    case False
    with assms t c have "sm_string_matcher a = sm_string_matcher b"
      by (simp add: StringMatcher_eq_def)
    with False t c show ?thesis
      by (cases "sm_type b") (simp_all add: StringMatcher_ToString_def)
  qed
qed

lemma HeaderMatcher_eq_ToString:
  assumes "HeaderMatcher_eq a b = Some True"
  shows "\<exists>s. HeaderMatcher_ToString a = Some s \<and> HeaderMatcher_ToString b = Some s"
proof -
  from assms have n: "hm_name a = hm_name b" and t: "hm_type a = hm_type b"
    and i: "hm_invert_match a = hm_invert_match b"
    by (auto simp: HeaderMatcher_eq_def split: if_splits)
  show ?thesis
  proof (cases "hm_type b = RANGE \<or> hm_type b = PRESENT")
    case True
    with assms n t i show ?thesis
      by (auto simp: HeaderMatcher_eq_def HeaderMatcher_ToString_def)
  next
    case False
    with assms n t i have "StringMatcher_eq (hm_matcher a) (hm_matcher b) = Some True"
      by (cases "hm_type b") (simp_all add: HeaderMatcher_eq_def)
    from StringMatcher_eq_ToString [OF this] obtain s
      where "StringMatcher_ToString (hm_matcher a) = Some s"
        and "StringMatcher_ToString (hm_matcher b) = Some s"
      by blast
    with False n t i show ?thesis
      by (cases "hm_type b") (simp_all add: HeaderMatcher_ToString_def)
  qed
qed

lemma StringMatcher_eq_Create:
  assumes "StringMatcher_Create re2 t p cs = Inr a"
    and "StringMatcher_Create re2 t' p' cs' = Inr b"
  shows "StringMatcher_eq a b = Some (t = t' \<and> p = p' \<and> cs = cs')"
  using assms
  by (auto simp: StringMatcher_Create_def StringMatcher_eq_def StringMatcher_regex_def
      StringMatcher_literal_def Let_def split: if_splits)

lemma StringMatcher_Type_of_int_inj:
  "StringMatcher_Type_of_int (HeaderMatcher_Type_int t)
     = StringMatcher_Type_of_int (HeaderMatcher_Type_int t') \<longleftrightarrow> t = t'"
  by (cases t; cases t') (simp_all add: StringMatcher_Type_of_int_def)

lemma HeaderMatcher_eq_Create:
  assumes a: "HeaderMatcher_Create re2 init name type matcher rs re pm ivt = Inr a"
    and b: "HeaderMatcher_Create re2 init' name' type' matcher' rs' re' pm' ivt' = Inr b"
  shows "HeaderMatcher_eq a b =
           Some (name = name' \<and> type = type' \<and> ivt = ivt' \<and>
                 (case type of
                    RANGE \<Rightarrow> rs = rs' \<and> re = re'
                  | PRESENT \<Rightarrow> pm = pm'
                  | _ \<Rightarrow> matcher = matcher'))"
  using a
proof (cases rule: HeaderMatcher_Create_cases)
  case (shared sm)
  note A = shared
  from b show ?thesis
  proof (cases rule: HeaderMatcher_Create_cases)
    case (shared sm')
    from StringMatcher_eq_Create [OF A(3) shared(3)]
    have "StringMatcher_eq sm sm' = Some (type = type' \<and> matcher = matcher')"
      by (simp add: StringMatcher_Type_of_int_inj)
    moreover have "StringMatcher_move sm = sm" "StringMatcher_move sm' = sm'"
      using A(3) shared(3) by (simp_all add: StringMatcher_move_Create)
    ultimately show ?thesis
      using A shared
      by (cases type) (auto simp: HeaderMatcher_eq_def HeaderMatcher_string_def)
  next
    case range
    with A show ?thesis
      by (auto simp: HeaderMatcher_eq_def HeaderMatcher_string_def HeaderMatcher_range_def)
  next
    case present
    with A show ?thesis
      by (auto simp: HeaderMatcher_eq_def HeaderMatcher_string_def HeaderMatcher_present_def)
  qed
next
  case range
  note A = range
  from b show ?thesis
  proof (cases rule: HeaderMatcher_Create_cases)
    case (shared sm')
    with A show ?thesis
      by (auto simp: HeaderMatcher_eq_def HeaderMatcher_string_def HeaderMatcher_range_def)
  next
    case range
    with A show ?thesis
      by (auto simp: HeaderMatcher_eq_def HeaderMatcher_range_def)
  next
    case present
    with A show ?thesis
      by (auto simp: HeaderMatcher_eq_def HeaderMatcher_range_def HeaderMatcher_present_def)
  qed
next
  case present
  note A = present
  from b show ?thesis
  proof (cases rule: HeaderMatcher_Create_cases)
    case (shared sm')
    with A show ?thesis
      by (auto simp: HeaderMatcher_eq_def HeaderMatcher_string_def HeaderMatcher_present_def)
  next
    case range
    with A show ?thesis
      by (auto simp: HeaderMatcher_eq_def HeaderMatcher_range_def HeaderMatcher_present_def)
  next
    case present
    with A show ?thesis
      by (auto simp: HeaderMatcher_eq_def HeaderMatcher_present_def)
  qed
qed

text \<open>
  C8: two StringMatchers, and two HeaderMatchers, that \<^verbatim>\<open>operator==\<close> finds equal have the
  same \<^verbatim>\<open>ToString\<close>; creating twice from the same arguments gives equal objects, whatever
  the members left out by the constructor hold; and equality of two created objects is
  equality of their type, flags and payload, the payload of a regular expression being the
  text of its pattern.
\<close>

theorem equal_matchers_same_canonical_form:
  "(StringMatcher_eq a b = Some True \<longrightarrow>
      (\<exists>s. StringMatcher_ToString a = Some s \<and> StringMatcher_ToString b = Some s))
   \<and> (HeaderMatcher_eq ha hb = Some True \<longrightarrow>
      (\<exists>s. HeaderMatcher_ToString ha = Some s \<and> HeaderMatcher_ToString hb = Some s))
   \<and> (StringMatcher_Create re2 t p cs = Inr x \<longrightarrow>
      StringMatcher_Create re2 t p cs = Inr y \<longrightarrow> StringMatcher_eq x y = Some True)
   \<and> (HeaderMatcher_Create re2 init name type matcher rs re pm ivt = Inr hx \<longrightarrow>
      HeaderMatcher_Create re2 init' name type matcher rs re pm ivt = Inr hy \<longrightarrow>
      HeaderMatcher_eq hx hy = Some True)
   \<and> (StringMatcher_Create re2 t p cs = Inr x \<longrightarrow>
      StringMatcher_Create re2 t' p' cs' = Inr z \<longrightarrow>
      StringMatcher_eq x z = Some (t = t' \<and> p = p' \<and> cs = cs'))
   \<and> (HeaderMatcher_Create re2 init name type matcher rs re pm ivt = Inr hx \<longrightarrow>
      HeaderMatcher_Create re2 init' name' type' matcher' rs' re' pm' ivt' = Inr hz \<longrightarrow>
      HeaderMatcher_eq hx hz =
        Some (name = name' \<and> type = type' \<and> ivt = ivt' \<and>
              (case type of
                 RANGE \<Rightarrow> rs = rs' \<and> re = re'
               | PRESENT \<Rightarrow> pm = pm'
               | _ \<Rightarrow> matcher = matcher')))"
proof -
  have 1: "StringMatcher_eq a b = Some True \<longrightarrow>
      (\<exists>s. StringMatcher_ToString a = Some s \<and> StringMatcher_ToString b = Some s)"
    using StringMatcher_eq_ToString by blast
  have 2: "HeaderMatcher_eq ha hb = Some True \<longrightarrow>
      (\<exists>s. HeaderMatcher_ToString ha = Some s \<and> HeaderMatcher_ToString hb = Some s)"
    using HeaderMatcher_eq_ToString by blast
  have 3: "StringMatcher_Create re2 t p cs = Inr x \<longrightarrow>
      StringMatcher_Create re2 t p cs = Inr y \<longrightarrow> StringMatcher_eq x y = Some True"
    using StringMatcher_eq_Create [of re2 t p cs x t p cs y] by auto
  have 4: "HeaderMatcher_Create re2 init name type matcher rs re pm ivt = Inr hx \<longrightarrow>
      HeaderMatcher_Create re2 init' name type matcher rs re pm ivt = Inr hy \<longrightarrow>
      HeaderMatcher_eq hx hy = Some True"
    using HeaderMatcher_eq_Create [of re2 init name type matcher rs re pm ivt hx
        init' name type matcher rs re pm ivt hy]
    by (cases type) simp_all
  have 5: "StringMatcher_Create re2 t p cs = Inr x \<longrightarrow>
      StringMatcher_Create re2 t' p' cs' = Inr z \<longrightarrow>
      StringMatcher_eq x z = Some (t = t' \<and> p = p' \<and> cs = cs')"
    using StringMatcher_eq_Create by blast
  have 6: "HeaderMatcher_Create re2 init name type matcher rs re pm ivt = Inr hx \<longrightarrow>
      HeaderMatcher_Create re2 init' name' type' matcher' rs' re' pm' ivt' = Inr hz \<longrightarrow>
      HeaderMatcher_eq hx hz =
        Some (name = name' \<and> type = type' \<and> ivt = ivt' \<and>
              (case type of
                 RANGE \<Rightarrow> rs = rs' \<and> re = re'
               | PRESENT \<Rightarrow> pm = pm'
               | _ \<Rightarrow> matcher = matcher'))"
    using HeaderMatcher_eq_Create by blast
  from 1 2 3 4 5 6 show ?thesis by blast
qed

theorem equal_matchers_same_canonical_form_witness:
  "StringMatcher_Create small_engine SAFE_REGEX ''a+b'' True
     = Inr (StringMatcher_regex (RE2 ''a+b'' True) True)
   \<and> StringMatcher_eq (StringMatcher_regex (RE2 ''a+b'' True) True)
        (StringMatcher_regex (RE2 ''a+b'' True) True) = Some True
   \<and> (\<exists>s. StringMatcher_ToString (StringMatcher_regex (RE2 ''a+b'' True) True) = Some s)
   \<and> HeaderMatcher_Create small_engine blank_HeaderMatcher ''age'' RANGE [] 10 20 False False
     = Inr (HeaderMatcher_range blank_HeaderMatcher ''age'' 10 20 False)
   \<and> HeaderMatcher_Create small_engine (blank_HeaderMatcher\<lparr>hm_present_match := True\<rparr>)
        ''age'' RANGE [] 10 20 False False
     = Inr (HeaderMatcher_range (blank_HeaderMatcher\<lparr>hm_present_match := True\<rparr>) ''age'' 10 20
              False)
   \<and> HeaderMatcher_eq (HeaderMatcher_range blank_HeaderMatcher ''age'' 10 20 False)
        (HeaderMatcher_range (blank_HeaderMatcher\<lparr>hm_present_match := True\<rparr>) ''age'' 10 20
              False) = Some True
   \<and> (\<exists>s. HeaderMatcher_ToString (HeaderMatcher_range blank_HeaderMatcher ''age'' 10 20 False)
            = Some s
          \<and> HeaderMatcher_ToString
              (HeaderMatcher_range (blank_HeaderMatcher\<lparr>hm_present_match := True\<rparr>) ''age''
                 10 20 False) = Some s)"
proof -
  let ?x = "StringMatcher_regex (RE2 ''a+b'' True) True"
  let ?h = "HeaderMatcher_range blank_HeaderMatcher ''age'' 10 20 False"
  let ?i = "blank_HeaderMatcher\<lparr>hm_present_match := True\<rparr>"
  let ?k = "HeaderMatcher_range ?i ''age'' 10 20 False"
  note T = equal_matchers_same_canonical_form [where ?re2.0 = small_engine
      and t = SAFE_REGEX and p = "''a+b''" and cs = True and x = ?x and y = ?x
      and a = ?x and b = ?x and ha = ?h and hb = ?k and init = blank_HeaderMatcher
      and init' = ?i and name = "''age''" and type = RANGE and matcher = "[]" and rs = 10
      and re = 20 and pm = False and ivt = False and hx = ?h and hy = ?k]
  have c: "StringMatcher_Create small_engine SAFE_REGEX ''a+b'' True = Inr ?x"
    by (simp add: StringMatcher_Create_def small_engine_def is_operator_def)
  have d: "HeaderMatcher_Create small_engine blank_HeaderMatcher ''age'' RANGE [] 10 20 False
      False = Inr ?h"
    by (simp add: HeaderMatcher_Create_def)
  have e: "HeaderMatcher_Create small_engine ?i ''age'' RANGE [] 10 20 False False = Inr ?k"
    by (simp add: HeaderMatcher_Create_def)
  have 1: "StringMatcher_eq ?x ?x = Some True"
    using T c by blast
  have 2: "\<exists>s. StringMatcher_ToString ?x = Some s"
    using T 1 by blast
  have 3: "HeaderMatcher_eq ?h ?k = Some True"
    using T d e by blast
  have 4: "\<exists>s. HeaderMatcher_ToString ?h = Some s \<and> HeaderMatcher_ToString ?k = Some s"
    using T 3 by blast
  from c 1 2 d e 3 4 show ?thesis by blast
qed

text \<open>
  C5, as stated: the canonical string of a \<^verbatim>\<open>RANGE\<close> matcher shows the bounds as
  \<^verbatim>\<open>range=[start, end)\<close>, with a closing parenthesis. The format string of \<^verbatim>\<open>ToString\<close>
  closes with a square bracket: for the bounds 10 and 20 the string has no
  \<^verbatim>\<open>range=[10, 20)\<close> in it.
\<close>

theorem Range_ToString_counterexample:
  "HeaderMatcher_Create small_engine blank_HeaderMatcher ''age'' RANGE [] 10 20 False False
     = Inr (HeaderMatcher_range blank_HeaderMatcher ''age'' 10 20 False)
   \<and> HeaderMatcher_ToString (HeaderMatcher_range blank_HeaderMatcher ''age'' 10 20 False)
     = Some ''HeaderMatcher{age range=[10, 20]}''
   \<and> \<not> StrContains ''HeaderMatcher{age range=[10, 20]}'' ''range=[10, 20)''"
proof -
  have d: "HeaderMatcher_Create small_engine blank_HeaderMatcher ''age'' RANGE [] 10 20 False
      False = Inr (HeaderMatcher_range blank_HeaderMatcher ''age'' 10 20 False)"
    by (simp add: HeaderMatcher_Create_def)
  have f: "format_d 10 = ''10''" "format_d 20 = ''20''"
    by code_simp+
  have t: "HeaderMatcher_ToString (HeaderMatcher_range blank_HeaderMatcher ''age'' 10 20 False)
     = Some ''HeaderMatcher{age range=[10, 20]}''"
    by (simp add: HeaderMatcher_ToString_def HeaderMatcher_range_def f)
  have n: "\<not> StrContains ''HeaderMatcher{age range=[10, 20]}'' ''range=[10, 20)''"
    by (simp add: StrContains_def StartsWith_def)
  from d t n show ?thesis by blast
qed

text \<open>
  C5, amended: the canonical string of a \<^verbatim>\<open>RANGE\<close> matcher is \<^verbatim>\<open>HeaderMatcher{\<close>, the
  name, a blank, \<^verbatim>\<open>not \<close> exactly when \<^verbatim>\<open>invert_match_\<close> is set, then
  \<^verbatim>\<open>range=[start, end]}\<close> with both bounds in decimal and a closing square bracket.
\<close>

theorem Range_ToString:
  assumes "hm_type h = RANGE"
  shows "HeaderMatcher_ToString h =
           Some (''HeaderMatcher{'' @ hm_name h @ '' ''
                 @ (if hm_invert_match h then ''not '' else [])
                 @ ''range=['' @ format_d (hm_range_start h) @ '', ''
                 @ format_d (hm_range_end h) @ '']}'')"
  using assms by (simp add: HeaderMatcher_ToString_def)

theorem Range_ToString_witness:
  "hm_type (HeaderMatcher_range blank_HeaderMatcher ''age'' (- 5) 20 True) = RANGE
   \<and> HeaderMatcher_ToString (HeaderMatcher_range blank_HeaderMatcher ''age'' (- 5) 20 True)
     = Some ''HeaderMatcher{age not range=[-5, 20]}''"
proof -
  have r: "hm_type (HeaderMatcher_range blank_HeaderMatcher ''age'' (- 5) 20 True) = RANGE"
    by (simp add: HeaderMatcher_range_def)
  have f: "format_d (- 5) = ''-5''" "format_d 20 = ''20''"
    by code_simp+
  show ?thesis
    using r Range_ToString [OF r]
    by (simp add: HeaderMatcher_range_def f)
qed

section \<open>Ranges\<close>
















lemma SimpleAtoi_examples:
  "SimpleAtoi ''15'' = Some 15" "SimpleAtoi ''-15'' = Some (- 15)"
  "SimpleAtoi ''+15'' = Some 15" "SimpleAtoi '' 15 '' = Some 15"
  "SimpleAtoi ''15x'' = None" "SimpleAtoi ''1 5'' = None" "SimpleAtoi ''-'' = None"
  "SimpleAtoi [] = None" "SimpleAtoi ''0x1f'' = None" "SimpleAtoi ''1.5'' = None"
  by code_simp+



section \<open>Two scenarios of the specification\<close>

text \<open>
  A matcher of type \<^verbatim>\<open>PRESENT\<close> that expects a value, and an inverted \<^verbatim>\<open>EXACT\<close> matcher,
  on absent and present values.
\<close>

lemma scenario_present:
  "HeaderMatcher_Create small_engine blank_HeaderMatcher ''x'' PRESENT [] 0 0 True False
     = Inr (HeaderMatcher_present blank_HeaderMatcher ''x'' True False)"
  "HeaderMatcher_Match small_engine (HeaderMatcher_present blank_HeaderMatcher ''x'' True False)
     None = Some False"
  "HeaderMatcher_Match small_engine (HeaderMatcher_present blank_HeaderMatcher ''x'' True False)
     (Some ''v'') = Some True"
  by (simp_all add: HeaderMatcher_Create_def HeaderMatcher_Match_def base_match_present)

lemma scenario_inverted_exact:
  "HeaderMatcher_Create small_engine blank_HeaderMatcher ''x'' H_EXACT ''a'' 0 0 False True
     = Inr (HeaderMatcher_string blank_HeaderMatcher ''x'' H_EXACT
              (StringMatcher_literal EXACT ''a'' True) True)"
  "HeaderMatcher_Match small_engine
     (HeaderMatcher_string blank_HeaderMatcher ''x'' H_EXACT
        (StringMatcher_literal EXACT ''a'' True) True) None = Some True"
  "HeaderMatcher_Match small_engine
     (HeaderMatcher_string blank_HeaderMatcher ''x'' H_EXACT
        (StringMatcher_literal EXACT ''a'' True) True) (Some ''a'') = Some False"
  "HeaderMatcher_Match small_engine
     (HeaderMatcher_string blank_HeaderMatcher ''x'' H_EXACT
        (StringMatcher_literal EXACT ''a'' True) True) (Some ''b'') = Some True"
  by (simp_all add: HeaderMatcher_Create_def StringMatcher_Type_of_int_def
      StringMatcher_Create_def HeaderMatcher_Match_def base_match_string
      StringMatcher_move_def StringMatcher_literal_def StringMatcher_Match_def)

end
